theory Spec2Isabelle
  imports Main "HOL-Library.Sublist" "HOL-Library.Char_ord" "HOL-Library.List_Lexorder"
begin

section \<open>The PostgreSQL driver of dbmate (pkg/driver/postgres/postgres.go)\<close>

text \<open>
  Go strings are byte sequences and are modelled as \<open>string\<close> (a list of 8-bit
  characters). Go's \<open>error\<close> interface is a datatype, a \<open>nil\<close> error is \<open>None\<close>, and a
  function returning \<open>(T, error)\<close> returns \<open>error + T\<close>. Go's \<open>int\<close> is modelled as
  \<open>int\<close>; the only place where its width matters is \<open>strconv.Atoi\<close>, whose 64-bit range
  check is written out.
\<close>

subsection \<open>The functions of package strings and strconv the driver calls\<close>

text \<open>\<open>strings.Index(s, sep)\<close>: the position of the first occurrence of \<open>sep\<close>.\<close>

fun Index :: "string \<Rightarrow> string \<Rightarrow> nat option" where
  "Index [] sep = (if sep = [] then Some 0 else None)"
| "Index (c # cs) sep =
     (if prefix sep (c # cs) then Some 0
      else (case Index cs sep of None \<Rightarrow> None | Some m \<Rightarrow> Some (Suc m)))"

text \<open>
  \<open>strings.Split(s, sep)\<close> cuts \<open>s\<close> at every occurrence of \<open>sep\<close>, found from left to
  right with \<open>Index\<close>; the piece after the last occurrence ends the result, so the
  result is never empty. The driver splits on \<open>","\<close> and \<open>"."\<close> only; for the empty
  separator (Go then splits into UTF-8 sequences) the model splits into bytes.
\<close>

function Split :: "string \<Rightarrow> string \<Rightarrow> string list" where
  "Split s sep =
     (if sep = [] then map (\<lambda>c. [c]) s
      else (case Index s sep of
              None \<Rightarrow> [s]
            | Some m \<Rightarrow> take m s # Split (drop (m + length sep) s) sep))"
  by pat_completeness auto

lemma Index_bound: "Index s sep = Some m \<Longrightarrow> m + length sep \<le> length s"
proof (induction s arbitrary: m)
  case Nil
  then show ?case by (simp split: if_splits)
next
  case (Cons c cs)
  show ?case
  proof (cases "prefix sep (c # cs)")
    case True
    with Cons.prems have "m = 0" by simp
    moreover from True have "length sep \<le> length (c # cs)" by (rule prefix_length_le)
    ultimately show ?thesis by simp
  next
    case False
    with Cons.prems obtain m' where "Index cs sep = Some m'" and "m = Suc m'"
      by (auto split: option.splits)
    with Cons.IH [of m'] show ?thesis by simp
  qed
qed

termination Split
proof (relation "measure (\<lambda>(s, sep). length s)")
  show "wf (measure (\<lambda>(s, sep). length s))" by simp
next
  fix s sep :: string and m
  assume "sep \<noteq> []" and "Index s sep = Some m"
  then have "m + length sep \<le> length s" and "0 < length sep"
    by (auto dest: Index_bound)
  then have "length s - (m + length sep) < length s"
    by arith
  then show "((drop (m + length sep) s, sep), (s, sep)) \<in> measure (\<lambda>(s, sep). length s)"
    by simp
qed

text \<open>\<open>strings.Join(elems, sep)\<close>.\<close>

fun Join :: "string list \<Rightarrow> string \<Rightarrow> string" where
  "Join [] sep = []"
| "Join [x] sep = x"
| "Join (x # y # ys) sep = x @ sep @ Join (y # ys) sep"

text \<open>
  \<open>strings.TrimSpace(s)\<close> removes the leading and the trailing white space of \<open>s\<close>, as
  \<open>unicode.IsSpace\<close> defines it, decoding UTF-8. A white-space rune is well-formed
  UTF-8 and an ill-formed byte decodes to \<open>utf8.RuneError\<close>, which is no white space, so
  trimming removes, from either end, the encodings listed in \<open>whiteSpace\<close>: U+0009 to
  U+000D, U+0020, U+0085, U+00A0, U+1680, U+2000 to U+200A, U+2028, U+2029, U+202F,
  U+205F and U+3000.
\<close>

definition whiteSpace :: "string list" where
  "whiteSpace =
     [[CHR 0x09], [CHR 0x0A], [CHR 0x0B], [CHR 0x0C], [CHR 0x0D], [CHR 0x20],
      [CHR 0xC2, CHR 0x85], [CHR 0xC2, CHR 0xA0], [CHR 0xE1, CHR 0x9A, CHR 0x80],
      [CHR 0xE2, CHR 0x80, CHR 0x80], [CHR 0xE2, CHR 0x80, CHR 0x81],
      [CHR 0xE2, CHR 0x80, CHR 0x82], [CHR 0xE2, CHR 0x80, CHR 0x83],
      [CHR 0xE2, CHR 0x80, CHR 0x84], [CHR 0xE2, CHR 0x80, CHR 0x85],
      [CHR 0xE2, CHR 0x80, CHR 0x86], [CHR 0xE2, CHR 0x80, CHR 0x87],
      [CHR 0xE2, CHR 0x80, CHR 0x88], [CHR 0xE2, CHR 0x80, CHR 0x89],
      [CHR 0xE2, CHR 0x80, CHR 0x8A], [CHR 0xE2, CHR 0x80, CHR 0xA8],
      [CHR 0xE2, CHR 0x80, CHR 0xA9], [CHR 0xE2, CHR 0x80, CHR 0xAF],
      [CHR 0xE2, CHR 0x81, CHR 0x9F], [CHR 0xE3, CHR 0x80, CHR 0x80]]"

text \<open>The width in bytes of the white-space rune \<open>s\<close> starts (ends) with, 0 when it has none.\<close>

definition leadingSpace :: "string \<Rightarrow> nat" where
  "leadingSpace s = (case filter (\<lambda>w. prefix w s) whiteSpace of [] \<Rightarrow> 0 | w # _ \<Rightarrow> length w)"

definition trailingSpace :: "string \<Rightarrow> nat" where
  "trailingSpace s = (case filter (\<lambda>w. suffix w s) whiteSpace of [] \<Rightarrow> 0 | w # _ \<Rightarrow> length w)"

function TrimLeft :: "string \<Rightarrow> string" where
  "TrimLeft s = (if leadingSpace s = 0 then s else TrimLeft (drop (leadingSpace s) s))"
  by pat_completeness auto

function TrimRight :: "string \<Rightarrow> string" where
  "TrimRight s =
     (if trailingSpace s = 0 then s else TrimRight (take (length s - trailingSpace s) s))"
  by pat_completeness auto

lemma whiteSpace_nonempty: "w \<in> set whiteSpace \<Longrightarrow> w \<noteq> []"
  by (auto simp: whiteSpace_def)

lemma leadingSpace_Nil: "leadingSpace [] = 0"
proof -
  have "filter (\<lambda>w. prefix w []) whiteSpace = []"
    by (auto simp: filter_empty_conv dest: whiteSpace_nonempty)
  then show ?thesis by (simp add: leadingSpace_def)
qed

lemma trailingSpace_Nil: "trailingSpace [] = 0"
proof -
  have "filter (\<lambda>w. suffix w []) whiteSpace = []"
    by (auto simp: filter_empty_conv dest: whiteSpace_nonempty)
  then show ?thesis by (simp add: trailingSpace_def)
qed

termination TrimLeft
proof (relation "measure length")
  show "wf (measure length)" by simp
next
  fix s :: string
  assume "leadingSpace s \<noteq> 0"
  then have "s \<noteq> []" using leadingSpace_Nil by auto
  with \<open>leadingSpace s \<noteq> 0\<close> have "length s - leadingSpace s < length s" by simp
  then show "(drop (leadingSpace s) s, s) \<in> measure length" by simp
qed

termination TrimRight
proof (relation "measure length")
  show "wf (measure length)" by simp
next
  fix s :: string
  assume "trailingSpace s \<noteq> 0"
  then have "s \<noteq> []" using trailingSpace_Nil by auto
  with \<open>trailingSpace s \<noteq> 0\<close> have "length s - trailingSpace s < length s" by simp
  then show "(take (length s - trailingSpace s) s, s) \<in> measure length" by simp
qed

definition TrimSpace :: "string \<Rightarrow> string" where
  "TrimSpace s = TrimRight (TrimLeft s)"

text \<open>The verb \<open>%d\<close> of \<open>fmt.Sprintf\<close>: a decimal numeral, with a minus sign when negative.\<close>

definition digitChar :: "nat \<Rightarrow> char" where
  "digitChar n = ''0123456789'' ! n"

fun digits :: "nat \<Rightarrow> string" where
  "digits n = (if n < 10 then [digitChar n] else digits (n div 10) @ [digitChar (n mod 10)])"

definition itoa :: "int \<Rightarrow> string" where
  "itoa i = (if i < 0 then CHR ''-'' # digits (nat (- i)) else digits (nat i))"

text \<open>
  \<open>strconv.Atoi(s)\<close>: an optional sign, then one or more decimal digits and nothing else;
  the value must fit Go's \<open>int\<close>, 64 bits wide. The driver only tests the error for \<open>nil\<close>.
\<close>

datatype NumError = ErrSyntax | ErrRange

definition digitVal :: "char \<Rightarrow> nat option" where
  "digitVal c = Index ''0123456789'' [c]"

fun parseDigits :: "string \<Rightarrow> nat \<Rightarrow> nat option" where
  "parseDigits [] n = Some n"
| "parseDigits (c # cs) n =
     (case digitVal c of None \<Rightarrow> None | Some d \<Rightarrow> parseDigits cs (n * 10 + d))"

definition Atoi :: "string \<Rightarrow> NumError + int" where
  "Atoi s =
     (let neg = (s \<noteq> [] \<and> hd s = CHR ''-'');
          ds = (if s \<noteq> [] \<and> (hd s = CHR ''-'' \<or> hd s = CHR ''+'') then tl s else s)
      in if ds = [] then Inl ErrSyntax
         else (case parseDigits ds 0 of
                 None \<Rightarrow> Inl ErrSyntax
               | Some n \<Rightarrow>
                   (let v = (if neg then - int n else int n)
                    in if - (2 ^ 63) \<le> v \<and> v < 2 ^ 63 then Inr v else Inl ErrRange)))"

subsection \<open>Errors\<close>

text \<open>
  \<open>pq.Error\<close> is the error of the PostgreSQL client library; the driver reads its fields
  \<open>Code\<close> and \<open>Position\<close> (both strings). An \<open>error\<close> is a \<open>*pq.Error\<close>, the sentinel
  \<open>sql.ErrNoRows\<close>, an error that wraps another one (what \<open>errors.As\<close> looks through
  and a type assertion does not), or any other error. A run-time panic (an index out
  of range) ends the call as well and is the last constructor.
\<close>

record pq_Error =
  Code :: string
  PqPosition :: string
  Message :: string

datatype error =
    PqError pq_Error
  | ErrNoRows
  | Wrapped string error
  | OtherError string
  | Panic string

text \<open>The type assertion \<open>err.(*pq.Error)\<close>: only an error that is itself a \<open>*pq.Error\<close>.\<close>

fun assertPqError :: "error \<Rightarrow> pq_Error option" where
  "assertPqError (PqError e) = Some e"
| "assertPqError ErrNoRows = None"
| "assertPqError (Wrapped msg e) = None"
| "assertPqError (OtherError msg) = None"
| "assertPqError (Panic msg) = None"

text \<open>\<open>errors.As(err, &pqerr)\<close>: the first \<open>*pq.Error\<close> in the chain of wrapped errors.\<close>

fun errorsAsPqError :: "error \<Rightarrow> pq_Error option" where
  "errorsAsPqError (PqError e) = Some e"
| "errorsAsPqError ErrNoRows = None"
| "errorsAsPqError (Wrapped msg e) = errorsAsPqError e"
| "errorsAsPqError (OtherError msg) = None"
| "errorsAsPqError (Panic msg) = None"

text \<open>\<open>dbmate.QueryError\<close>, the normalised error; \<open>Err\<close> is \<open>None\<close> for a \<open>nil\<close> error.\<close>

record QueryError_t =
  Err :: "error option"
  Query :: string
  Position :: int

subsection \<open>The connection URL\<close>

text \<open>
  \<open>url.URL\<close> with the fields the driver reads or writes; \<open>User\<close> is \<open>None\<close> for a \<open>nil\<close>
  \<open>*Userinfo\<close>. \<open>url.Values\<close> is a map from a key to its list of values. Parsing and
  printing URLs and query strings is package net/url's work and \<open>dbutil.MustParseURL\<close>
  is defined in another package: the four functions are parameters of the model.
\<close>

record Userinfo =
  username :: string
  password :: "string option"

record URL =
  Scheme :: string
  User :: "Userinfo option"
  Host :: string
  Path :: string
  RawQuery :: string

type_synonym Values = "string \<rightharpoonup> string list"

record net_url =
  ParseQuery :: "string \<Rightarrow> Values"
  Encode :: "Values \<Rightarrow> string"
  URL_String :: "URL \<Rightarrow> string"
  MustParseURL :: "string \<Rightarrow> URL"

text \<open>\<open>u.Query()\<close>, \<open>v.Get(key)\<close> (the first value of the key, or the empty string) and \<open>v.Del(key)\<close>.\<close>

definition URL_Query :: "net_url \<Rightarrow> URL \<Rightarrow> Values" where
  "URL_Query lib u = ParseQuery lib (RawQuery u)"

definition Get :: "Values \<Rightarrow> string \<Rightarrow> string" where
  "Get v key = (case v key of None \<Rightarrow> [] | Some [] \<Rightarrow> [] | Some (x # xs) \<Rightarrow> x)"

definition Del :: "Values \<Rightarrow> string \<Rightarrow> Values" where
  "Del v key = v(key := None)"

definition Username :: "Userinfo \<Rightarrow> string" where
  "Username ui = username ui"

subsection \<open>The driver\<close>

record Driver =
  migrationsTableName :: string
  databaseURL :: URL
  databaseName :: string

record DriverConfig =
  MigrationsTableName :: string
  DatabaseURL :: URL

text \<open>
  \<open>resolveDatabaseName\<close> (lines 43 to 59). \<open>getenv\<close> is \<open>os.Getenv\<close>, which returns the
  empty string for a variable that is not set.
\<close>

definition resolveDatabaseName :: "(string \<Rightarrow> string) \<Rightarrow> URL \<Rightarrow> string" where
  "resolveDatabaseName getenv u =
     (let name = Path u;
          name = (if length name > 0 \<and> take 1 name = ''/'' then drop 1 name else name);
          name = (if name = [] then getenv ''PGDATABASE'' else name);
          name = (if name = [] \<and> User u \<noteq> None then Username (the (User u)) else name)
      in name)"

definition NewDriver :: "(string \<Rightarrow> string) \<Rightarrow> DriverConfig \<Rightarrow> Driver" where
  "NewDriver getenv config =
     \<lparr>migrationsTableName = MigrationsTableName config,
      databaseURL = DatabaseURL config,
      databaseName = resolveDatabaseName getenv (DatabaseURL config)\<rparr>"

text \<open>
  \<open>connectionArgsForDump\<close> (lines 61 to 78). The loop over \<open>schemas\<close> appends to \<open>args\<close>.
\<close>

fun schemaArgs :: "string list \<Rightarrow> string list \<Rightarrow> string list" where
  "schemaArgs [] args = args"
| "schemaArgs (schema # schemas) args =
     (let schema = TrimSpace schema
      in if schema \<noteq> [] then schemaArgs schemas (args @ [''--schema'', schema])
         else schemaArgs schemas args)"

definition connectionArgsForDump :: "net_url \<Rightarrow> URL \<Rightarrow> string list" where
  "connectionArgsForDump lib u0 =
     (let u = MustParseURL lib (URL_String lib u0);
          query = URL_Query lib u;
          schemas = Split (Get query ''search_path'') '','';
          query = Del query ''search_path'';
          u = u\<lparr>RawQuery := Encode lib query\<rparr>;
          args = schemaArgs schemas []
      in args @ [URL_String lib u])"

subsection \<open>The database connection\<close>

text \<open>
  The driver talks to the server through \<open>db.Exec\<close>, \<open>db.Query\<close>, \<open>db.QueryRow\<close> and the
  helpers \<open>dbutil.QueryValue\<close> and \<open>dbutil.QueryColumn\<close> (defined in another package).
  What the server answers is a parameter of the model: a \<open>DB\<close> gives, for the calls
  made so far on the connection and the next call, the result of that call. The state
  threaded through the driver is the list of calls made and the text written to the
  driver's \<open>log\<close>.
\<close>

datatype arg = Text string | TextArray "string list"

datatype call =
    CallExec string "arg list"
  | CallQuery string "arg list"
  | CallQueryRow string "arg list"
  | CallQueryValue string "arg list"
  | CallQueryColumn string "arg list"

text \<open>
  \<open>*sql.Rows\<close> as \<open>SelectMigrations\<close> reads it: the result of \<open>rows.Scan(&version)\<close> for
  every row \<open>rows.Next()\<close> delivers, and of \<open>rows.Err()\<close> once \<open>Next\<close> has returned false.
\<close>

record Rows =
  scans :: "(error + string) list"
  rowsErr :: "error option"

record DB =
  answerExec :: "call list \<Rightarrow> string \<Rightarrow> arg list \<Rightarrow> error option"
  answerQuery :: "call list \<Rightarrow> string \<Rightarrow> arg list \<Rightarrow> error + Rows"
  answerQueryRow :: "call list \<Rightarrow> string \<Rightarrow> arg list \<Rightarrow> error + bool"
  answerQueryValue :: "call list \<Rightarrow> string \<Rightarrow> arg list \<Rightarrow> error + string"
  answerQueryColumn :: "call list \<Rightarrow> string \<Rightarrow> arg list \<Rightarrow> error + string list"

record world =
  calls :: "call list"
  logged :: "string list"

definition db_Exec :: "DB \<Rightarrow> string \<Rightarrow> arg list \<Rightarrow> world \<Rightarrow> error option \<times> world" where
  "db_Exec db q as w = (answerExec db (calls w) q as, w\<lparr>calls := calls w @ [CallExec q as]\<rparr>)"


text \<open>\<open>db.QueryRow(q, args...).Scan(&exists)\<close>: \<open>sql.ErrNoRows\<close> when the query has no row.\<close>

definition db_QueryRow :: "DB \<Rightarrow> string \<Rightarrow> arg list \<Rightarrow> world \<Rightarrow> (error + bool) \<times> world" where
  "db_QueryRow db q as w =
     (answerQueryRow db (calls w) q as, w\<lparr>calls := calls w @ [CallQueryRow q as]\<rparr>)"

definition dbutil_QueryValue ::
  "DB \<Rightarrow> string \<Rightarrow> arg list \<Rightarrow> world \<Rightarrow> (error + string) \<times> world" where
  "dbutil_QueryValue db q as w =
     (answerQueryValue db (calls w) q as, w\<lparr>calls := calls w @ [CallQueryValue q as]\<rparr>)"

definition dbutil_QueryColumn ::
  "DB \<Rightarrow> string \<Rightarrow> arg list \<Rightarrow> world \<Rightarrow> (error + string list) \<times> world" where
  "dbutil_QueryColumn db q as w =
     (answerQueryColumn db (calls w) q as, w\<lparr>calls := calls w @ [CallQueryColumn q as]\<rparr>)"

text \<open>\<open>fmt.Fprintf(drv.log, ...)\<close> with the text already formatted.\<close>

definition Fprintf :: "string \<Rightarrow> world \<Rightarrow> world" where
  "Fprintf text w = w\<lparr>logged := logged w @ [text]\<rparr>"

subsection \<open>The migrations table and its quoted name\<close>

text \<open>
  \<open>migrationsTableNameParts\<close> (lines 347 to 377). \<open>searchPath[0]\<close> panics on an empty
  slice; \<open>tableNameParts[0]\<close> and \<open>tableNameParts[1:]\<close> are read under the guard
  \<open>len(tableNameParts) > 1\<close>.
\<close>

definition migrationsTableNameParts ::
  "net_url \<Rightarrow> Driver \<Rightarrow> DB \<Rightarrow> world \<Rightarrow> (error + string \<times> string list) \<times> world" where
  "migrationsTableNameParts lib drv db w =
     (let schema = [];
          tableNameParts = Split (migrationsTableName drv) ''.'';
          (schema, tableNameParts) =
             (if length tableNameParts > 1 then (hd tableNameParts, tl tableNameParts)
              else (schema, tableNameParts));
          searchPath = Split (Get (URL_Query lib (databaseURL drv)) ''search_path'') '',''
      in if schema = [] \<and> searchPath = [] then (Inl (Panic ''index out of range''), w)
         else
           (let schema = (if schema = [] then TrimSpace (hd searchPath) else schema);
                (r, w) = (if schema = [] then dbutil_QueryValue db ''select current_schema()'' [] w
                          else (Inr schema, w))
            in (case r of
                  Inl err \<Rightarrow> (Inl err, w)
                | Inr schema \<Rightarrow>
                    (let schema = (if schema = [] then ''public'' else schema)
                     in (Inr (schema, tableNameParts), w)))))"

text \<open>
  \<open>quotedMigrationsTableNameParts\<close> (lines 379 to 397). \<open>quotedNameParts[0]\<close> panics when
  the server returns no row.
\<close>

definition quotedMigrationsTableNameParts ::
  "net_url \<Rightarrow> Driver \<Rightarrow> DB \<Rightarrow> world \<Rightarrow> (error + string \<times> string) \<times> world" where
  "quotedMigrationsTableNameParts lib drv db w =
     (case migrationsTableNameParts lib drv db w of
        (Inl err, w) \<Rightarrow> (Inl err, w)
      | (Inr (schema, tableNameParts), w) \<Rightarrow>
          (let tableNameParts = [schema] @ tableNameParts
           in (case dbutil_QueryColumn db ''select quote_ident(unnest($1::text[]))''
                       [TextArray tableNameParts] w of
                 (Inl err, w) \<Rightarrow> (Inl err, w)
               | (Inr quotedNameParts, w) \<Rightarrow>
                   (case quotedNameParts of
                      [] \<Rightarrow> (Inl (Panic ''index out of range''), w)
                    | q # qs \<Rightarrow> (Inr (q, Join qs ''.''), w)))))"


subsection \<open>The operations of the driver\<close>


text \<open>
  \<open>ping\<close> (lines 315 to 323) and \<open>DatabaseExists\<close> (lines 173 to 184). A \<open>server\<close> gives
  the error of \<open>sql.Open\<close> on the connection URL and the error of \<open>db.Ping()\<close>.
\<close>

record server =
  openErr :: "error option"
  pingErr :: "error option"

definition ping :: "server \<Rightarrow> error option" where
  "ping srv = (case openErr srv of None \<Rightarrow> pingErr srv | Some err \<Rightarrow> Some err)"

definition DatabaseExists :: "server \<Rightarrow> bool \<times> error option" where
  "DatabaseExists srv =
     (case ping srv of
        None \<Rightarrow> (True, None)
      | Some err \<Rightarrow>
          (case errorsAsPqError err of
             Some pqerr \<Rightarrow> if Code pqerr = ''3D000'' then (False, None) else (False, Some err)
           | None \<Rightarrow> (False, Some err)))"

text \<open>\<open>Ping\<close> (lines 306 to 313): the named result \<open>err\<close> is \<open>nil\<close> on every path.\<close>

definition Ping :: "server \<Rightarrow> error option" where
  "Ping srv =
     (case ping srv of
        None \<Rightarrow> None
      | Some e \<Rightarrow>
          (case errorsAsPqError e of
             Some pqerr \<Rightarrow> if Code pqerr = ''3D000'' then None else None
           | None \<Rightarrow> None))"

text \<open>\<open>MigrationsTableExists\<close> (lines 187 to 205); \<open>exists\<close> stays false when \<open>Scan\<close> fails.\<close>

definition MigrationsTableExists ::
  "net_url \<Rightarrow> Driver \<Rightarrow> DB \<Rightarrow> world \<Rightarrow> (bool \<times> error option) \<times> world" where
  "MigrationsTableExists lib drv db w =
     (case migrationsTableNameParts lib drv db w of
        (Inl err, w) \<Rightarrow> ((False, Some err), w)
      | (Inr (schema, migrationsTableNameParts'), w) \<Rightarrow>
          (let migrationsTable = Join migrationsTableNameParts' ''.''
           in (case db_QueryRow db
                       (''SELECT 1 FROM information_schema.tables ''
                          @ ''WHERE  table_schema = $1 ''
                          @ ''AND    table_name   = $2'')
                       [Text schema, Text migrationsTable] w of
                 (Inl err, w) \<Rightarrow>
                    (if err = ErrNoRows then ((False, None), w) else ((False, Some err), w))
               | (Inr exists, w) \<Rightarrow> ((exists, None), w))))"

text \<open>\<open>CreateMigrationsTable\<close> (lines 208 to 242).\<close>

definition CreateMigrationsTable ::
  "net_url \<Rightarrow> Driver \<Rightarrow> DB \<Rightarrow> world \<Rightarrow> error option \<times> world" where
  "CreateMigrationsTable lib drv db w =
     (case quotedMigrationsTableNameParts lib drv db w of
        (Inl err, w) \<Rightarrow> (Some err, w)
      | (Inr (schema, migrationsTable), w) \<Rightarrow>
          (let createTableStmt = ''create table if not exists '' @ schema @ ''.''
                 @ migrationsTable @ '' (version varchar(128) primary key)''
           in (case db_Exec db createTableStmt [] w of
                 (None, w) \<Rightarrow> (None, w)
               | (Some err, w) \<Rightarrow>
                   (if (case assertPqError err of None \<Rightarrow> True
                        | Some pqErr \<Rightarrow> Code pqErr \<noteq> ''3F000'')
                    then (Some err, w)
                    else
                      (let w = Fprintf (''Creating schema: '' @ schema @ ''\<newline>'') w
                       in (case db_Exec db (''create schema if not exists '' @ schema) [] w of
                             (Some err, w) \<Rightarrow> (Some err, w)
                           | (None, w) \<Rightarrow> db_Exec db createTableStmt [] w))))))"



text \<open>\<open>QueryError\<close> (lines 326 to 336).\<close>

definition QueryError :: "string \<Rightarrow> error option \<Rightarrow> QueryError_t" where
  "QueryError query err =
     (let position = 0;
          position =
            (case err of
               None \<Rightarrow> position
             | Some e \<Rightarrow>
                 (case assertPqError e of
                    None \<Rightarrow> position
                  | Some pqErr \<Rightarrow>
                      (case Atoi (PqPosition pqErr) of
                         Inr pos \<Rightarrow> pos
                       | Inl numErr \<Rightarrow> position)))
      in \<lparr>Err = err, Query = query, Position = position\<rparr>)"

section \<open>The properties, as the specification words them\<close>

text \<open>
  The order in which the database name is resolved: the path of the URL without its
  leading slash, else the override from the environment, else the user name of the
  URL, else the empty string.
\<close>

definition databaseNameOrder :: "string \<Rightarrow> string \<Rightarrow> string option \<Rightarrow> string" where
  "databaseNameOrder path override user =
     (let segment = (case path of c # cs \<Rightarrow> if c = CHR ''/'' then cs else path | [] \<Rightarrow> [])
      in if segment \<noteq> [] then segment
         else if override \<noteq> [] then override
         else (case user of Some name \<Rightarrow> name | None \<Rightarrow> []))"

text \<open>
  The signal "database does not exist" of the engine: the error is, or wraps, a
  \<open>pq.Error\<close> whose code is \<open>3D000\<close>.
\<close>

definition databaseMissing :: "error \<Rightarrow> bool" where
  "databaseMissing err =
     (case errorsAsPqError err of Some pqerr \<Rightarrow> Code pqerr = ''3D000'' | None \<Rightarrow> False)"

text \<open>
  The precedence of the schema of the migrations table: the first dot-separated
  segment of a table name that contains a dot, when that segment is not empty; else
  the first comma-separated entry of the search path, trimmed of white space; else
  the current schema the connection reports; else \<open>public\<close>.
\<close>

definition schemaPrecedence :: "string \<Rightarrow> string \<Rightarrow> error + string \<Rightarrow> error + string" where
  "schemaPrecedence tableName searchPath currentSchema =
     (let segment = takeWhile (\<lambda>c. c \<noteq> CHR ''.'') tableName;
          entry = TrimSpace (takeWhile (\<lambda>c. c \<noteq> CHR '','') searchPath)
      in if CHR ''.'' \<in> set tableName \<and> segment \<noteq> [] then Inr segment
         else if entry \<noteq> [] then Inr entry
         else (case currentSchema of
                 Inl err \<Rightarrow> Inl err
               | Inr current \<Rightarrow> if current \<noteq> [] then Inr current else Inr ''public''))"

text \<open>
  The signal "schema does not exist" of the engine, as \<open>CreateMigrationsTable\<close> tests
  it: the error is itself a \<open>pq.Error\<close> whose code is \<open>3F000\<close>.
\<close>

definition schemaMissing :: "error \<Rightarrow> bool" where
  "schemaMissing err =
     (case assertPqError err of Some pqErr \<Rightarrow> Code pqErr = ''3F000'' | None \<Rightarrow> False)"

subsection \<open>The statements the driver sends\<close>

definition quoteIdentQuery :: string where
  "quoteIdentQuery = ''select quote_ident(unnest($1::text[]))''"

definition catalogQuery :: string where
  "catalogQuery =
     ''SELECT 1 FROM information_schema.tables WHERE  table_schema = $1 AND    table_name   = $2''"

definition createTableStmt :: "string \<Rightarrow> string \<Rightarrow> string" where
  "createTableStmt schema table =
     ''create table if not exists '' @ schema @ ''.'' @ table
       @ '' (version varchar(128) primary key)''"

definition createSchemaStmt :: "string \<Rightarrow> string" where
  "createSchemaStmt schema = ''create schema if not exists '' @ schema"



subsection \<open>What the server answers and what the driver returns\<close>





subsection \<open>Inputs of the examples\<close>

definition exampleURL :: "string \<Rightarrow> string option \<Rightarrow> string \<Rightarrow> URL" where
  "exampleURL path user q =
     \<lparr>Scheme = ''postgres'',
      User = map_option (\<lambda>n. \<lparr>username = n, password = None\<rparr>) user,
      Host = ''localhost:5432'', Path = path, RawQuery = q\<rparr>"

text \<open>
  A stand-in for package net/url on URLs of the form
  \<open>postgres://localhost:5432/app?search_path=...\<close>, whose query is that one parameter.
\<close>

definition exampleLib :: net_url where
  "exampleLib =
     \<lparr>ParseQuery = (\<lambda>q. if prefix ''search_path='' q
                         then [''search_path'' \<mapsto> [drop 12 q]] else Map.empty),
      Encode = (\<lambda>v. case v ''search_path'' of
                        Some (x # xs) \<Rightarrow> ''search_path='' @ x | _ \<Rightarrow> []),
      URL_String = (\<lambda>u. Scheme u @ ''://'' @ Host u @ Path u
                         @ (if RawQuery u = [] then [] else ''?'' @ RawQuery u)),
      MustParseURL = (\<lambda>s. \<lparr>Scheme = ''postgres'', User = None, Host = ''localhost:5432'',
                            Path = ''/app'', RawQuery = drop 30 s\<rparr>)\<rparr>"

text \<open>
  A server on which every statement succeeds, no query has a row, the current schema
  is the one given, and identifiers are returned unquoted.
\<close>

definition exampleDB :: "string \<Rightarrow> DB" where
  "exampleDB currentSchema =
     \<lparr>answerExec = (\<lambda>h q as. None),
      answerQuery = (\<lambda>h q as. Inr \<lparr>scans = [], rowsErr = None\<rparr>),
      answerQueryRow = (\<lambda>h q as. Inl ErrNoRows),
      answerQueryValue = (\<lambda>h q as. Inr currentSchema),
      answerQueryColumn = (\<lambda>h q as. case as of [TextArray xs] \<Rightarrow> Inr xs | _ \<Rightarrow> Inr [])\<rparr>"

definition exampleDriver :: "string \<Rightarrow> string \<Rightarrow> Driver" where
  "exampleDriver tableName q =
     \<lparr>migrationsTableName = tableName, databaseURL = exampleURL ''/app'' None q,
      databaseName = ''app''\<rparr>"

definition emptyWorld :: world where
  "emptyWorld = \<lparr>calls = [], logged = []\<rparr>"

text \<open>Identifiers between double quotes, literals between single quotes.\<close>

definition exampleQuote :: "string \<Rightarrow> string" where
  "exampleQuote s = [CHR 0x22] @ s @ [CHR 0x22]"


text \<open>A server that quotes every identifier.\<close>

definition quotingDB :: DB where
  "quotingDB = (exampleDB [])
     \<lparr>answerQueryColumn :=
        (\<lambda>h q as. case as of [TextArray xs] \<Rightarrow> Inr (map exampleQuote xs) | _ \<Rightarrow> Inr [])\<rparr>"

text \<open>
  A server on which the schema \<open>s\<close> is missing until it is created, and one on which
  it is missing and the user may not create it.
\<close>

definition freshDB :: DB where
  "freshDB = (exampleDB [])
     \<lparr>answerExec :=
        (\<lambda>h q as. if prefix ''create table'' q \<and> CallExec (createSchemaStmt ''s'') [] \<notin> set h
                   then Some (PqError \<lparr>Code = ''3F000'', PqPosition = [],
                                        Message = ''schema does not exist''\<rparr>)
                   else None)\<rparr>"

definition deniedDB :: DB where
  "deniedDB = (exampleDB [])
     \<lparr>answerExec :=
        (\<lambda>h q as. if prefix ''create table'' q
                   then Some (PqError \<lparr>Code = ''3F000'', PqPosition = [],
                                        Message = ''schema does not exist''\<rparr>)
                   else Some (OtherError ''permission denied for database''))\<rparr>"


section \<open>Decimal numerals\<close>

declare digits.simps [simp del]
declare Split.simps [simp del]
declare TrimLeft.simps [simp del]
declare TrimRight.simps [simp del]

lemma digitVal_digitChar: "k < 10 \<Longrightarrow> digitVal (digitChar k) = Some k"
proof -
  assume "k < 10"
  then have "k \<in> {0, 1, 2, 3, 4, 5, 6, 7, 8, 9}" by auto
  then show ?thesis
    by (auto simp: digitChar_def digitVal_def)
qed

lemma digitChar_no_sign: "k < 10 \<Longrightarrow> digitChar k \<noteq> CHR ''-'' \<and> digitChar k \<noteq> CHR ''+''"
proof -
  assume "k < 10"
  then have "k \<in> {0, 1, 2, 3, 4, 5, 6, 7, 8, 9}" by auto
  then show ?thesis
    by (auto simp: digitChar_def)
qed

lemma parseDigits_append:
  "parseDigits (xs @ ys) n =
     (case parseDigits xs n of None \<Rightarrow> None | Some m \<Rightarrow> parseDigits ys m)"
  by (induction xs arbitrary: n) (auto split: option.splits)

lemma parseDigits_digits: "parseDigits (digits n) 0 = Some n"
proof (induction n rule: digits.induct)
  case (1 n)
  show ?case
  proof (cases "n < 10")
    case True
    then show ?thesis
      by (simp add: digits.simps [of n] digitVal_digitChar)
  next
    case False
    with 1 have "parseDigits (digits (n div 10)) 0 = Some (n div 10)" by simp
    moreover have "n mod 10 < 10" by simp
    ultimately show ?thesis using False
      by (simp add: digits.simps [of n] parseDigits_append digitVal_digitChar)
  qed
qed

lemma digits_hd:
  "digits n \<noteq> [] \<and> hd (digits n) \<noteq> CHR ''-'' \<and> hd (digits n) \<noteq> CHR ''+''"
proof (induction n rule: digits.induct)
  case (1 n)
  show ?case
  proof (cases "n < 10")
    case True
    then show ?thesis
      using digitChar_no_sign [of n] by (simp add: digits.simps [of n])
  next
    case False
    with 1 show ?thesis
      by (simp add: digits.simps [of n])
  qed
qed

text \<open>\<open>Atoi\<close> reads back the numeral of every integer that fits 64 bits.\<close>

lemma Atoi_itoa: "- (2 ^ 63) \<le> i \<Longrightarrow> i < 2 ^ 63 \<Longrightarrow> Atoi (itoa i) = Inr i"
proof (cases "i < 0")
  case True
  assume "- (2 ^ 63) \<le> i" "i < 2 ^ 63"
  with True show ?thesis
    by (simp add: Atoi_def itoa_def Let_def parseDigits_digits digits_hd)
next
  case False
  assume "- (2 ^ 63) \<le> i" "i < 2 ^ 63"
  with False show ?thesis
    using digits_hd [of "nat i"]
    by (simp add: Atoi_def itoa_def Let_def parseDigits_digits)
qed

section \<open>Splitting on one character\<close>

lemma Index_char:
  "Index s [c] = (if c \<in> set s then Some (length (takeWhile (\<lambda>x. x \<noteq> c) s)) else None)"
  by (induction s) auto

lemma Split_not_Nil: "sep \<noteq> [] \<Longrightarrow> Split s sep \<noteq> []"
  by (subst Split.simps) (simp split: option.splits)

text \<open>The first piece is what precedes the first separator.\<close>

lemma hd_Split_char: "hd (Split s [c]) = takeWhile (\<lambda>x. x \<noteq> c) s"
proof (cases "c \<in> set s")
  case True
  have "take (length (takeWhile (\<lambda>x. x \<noteq> c) s)) s = takeWhile (\<lambda>x. x \<noteq> c) s"
    by (rule takeWhile_eq_take [symmetric])
  with True show ?thesis
    by (subst Split.simps) (simp add: Index_char)
next
  case False
  then have "takeWhile (\<lambda>x. x \<noteq> c) s = s"
    by (simp add: takeWhile_eq_all_conv) blast
  moreover from False have "Split s [c] = [s]"
    by (subst Split.simps) (simp add: Index_char)
  ultimately show ?thesis
    by (simp only: list.sel)
qed

text \<open>There is more than one piece exactly when the separator occurs.\<close>

lemma length_Split_char: "(Suc 0 < length (Split s [c])) = (c \<in> set s)"
proof (cases "c \<in> set s")
  case True
  have "Split (drop (length (takeWhile (\<lambda>x. x \<noteq> c) s) + length [c]) s) [c] \<noteq> []"
    by (rule Split_not_Nil) simp
  with True show ?thesis
    by (subst Split.simps) (simp add: Index_char)
next
  case False
  then show ?thesis
    by (subst Split.simps) (simp add: Index_char)
qed

section \<open>The loop of connectionArgsForDump\<close>

lemma schemaArgs_eq:
  "schemaArgs schemas args =
     args @ concat (map (\<lambda>s. [''--schema'', s])
              (filter (\<lambda>s. s \<noteq> []) (map TrimSpace schemas)))"
  by (induction schemas arbitrary: args) (auto simp: Let_def)

section \<open>The loop of SelectMigrations\<close>



section \<open>The database name\<close>

text \<open>
  Claim C7. The database name is resolved in this order: the path of the URL without
  its leading slash; else the value of the environment variable \<open>PGDATABASE\<close>; else the
  user name of the URL; else the empty string.
\<close>

theorem resolveDatabaseName_order:
  "resolveDatabaseName getenv u =
     databaseNameOrder (Path u) (getenv ''PGDATABASE'') (map_option Username (User u))"
  by (cases "Path u"; cases "User u")
    (auto simp: resolveDatabaseName_def databaseNameOrder_def Let_def)

theorem resolveDatabaseName_order_witness:
  "resolveDatabaseName (\<lambda>v. []) (exampleURL ''/app'' (Some ''bob'') []) = ''app''
   \<and> resolveDatabaseName (\<lambda>v. if v = ''PGDATABASE'' then ''env_db'' else [])
        (exampleURL ''/'' (Some ''bob'') []) = ''env_db''
   \<and> resolveDatabaseName (\<lambda>v. []) (exampleURL [] (Some ''bob'') []) = ''bob''
   \<and> resolveDatabaseName (\<lambda>v. []) (exampleURL [] None []) = []"
  using resolveDatabaseName_order [of "\<lambda>v. []" "exampleURL ''/app'' (Some ''bob'') []"]
    resolveDatabaseName_order [of "\<lambda>v. if v = ''PGDATABASE'' then ''env_db'' else []"
      "exampleURL ''/'' (Some ''bob'') []"]
    resolveDatabaseName_order [of "\<lambda>v. []" "exampleURL [] (Some ''bob'') []"]
    resolveDatabaseName_order [of "\<lambda>v. []" "exampleURL [] None []"]
  by (simp add: databaseNameOrder_def exampleURL_def Username_def)

section \<open>Existence of the database\<close>

text \<open>
  Claim C5. \<open>DatabaseExists\<close> returns \<open>(true, nil)\<close> when the ping succeeds,
  \<open>(false, nil)\<close> when the ping fails with the signal "database does not exist", and
  \<open>(false, err)\<close> with the error of the ping for every other failure.
\<close>

theorem DatabaseExists_cases:
  "DatabaseExists srv =
     (case ping srv of
        None \<Rightarrow> (True, None)
      | Some err \<Rightarrow> if databaseMissing err then (False, None) else (False, Some err))"
  by (simp add: DatabaseExists_def databaseMissing_def split: option.splits)

theorem DatabaseExists_cases_witness:
  "DatabaseExists \<lparr>openErr = None, pingErr = None\<rparr> = (True, None)
   \<and> DatabaseExists \<lparr>openErr = None,
        pingErr = Some (PqError \<lparr>Code = ''3D000'', PqPosition = [],
                                  Message = ''database does not exist''\<rparr>)\<rparr>
       = (False, None)
   \<and> DatabaseExists \<lparr>openErr = None, pingErr = Some (OtherError ''connection refused'')\<rparr>
       = (False, Some (OtherError ''connection refused''))"
  using DatabaseExists_cases [of "\<lparr>openErr = None, pingErr = None\<rparr>"]
    DatabaseExists_cases [of "\<lparr>openErr = None,
        pingErr = Some (PqError \<lparr>Code = ''3D000'', PqPosition = [],
                                  Message = ''database does not exist''\<rparr>)\<rparr>"]
    DatabaseExists_cases [of
      "\<lparr>openErr = None, pingErr = Some (OtherError ''connection refused'')\<rparr>"]
  by (simp add: ping_def databaseMissing_def)

section \<open>The normalised query error\<close>

text \<open>
  Claim C9. \<open>QueryError\<close> passes the error and the query text through unchanged. The
  position is the number in the field \<open>Position\<close> of the \<open>pq.Error\<close> when the error is
  one and \<open>strconv.Atoi\<close> accepts the field, and 0 otherwise; a field holding the
  decimal numeral of an integer \<open>n\<close> of Go's \<open>int\<close> gives the position \<open>n\<close>.
\<close>

theorem QueryError_position:
  "Err (QueryError query err) = err
   \<and> Query (QueryError query err) = query
   \<and> Position (QueryError query err) =
       (case err of
          Some (PqError pqErr) \<Rightarrow>
            (case Atoi (PqPosition pqErr) of Inr pos \<Rightarrow> pos | Inl numErr \<Rightarrow> 0)
        | _ \<Rightarrow> 0)
   \<and> (- (2 ^ 63) \<le> n \<and> n < 2 ^ 63 \<longrightarrow>
        Position (QueryError query (Some (PqError (pqErr\<lparr>PqPosition := itoa n\<rparr>)))) = n)"
  by (auto simp: QueryError_def Let_def Atoi_itoa split: option.splits error.splits sum.splits)

theorem QueryError_position_witness:
  "- (2 ^ 63) \<le> (42::int) \<and> (42::int) < 2 ^ 63
   \<and> Position (QueryError ''select 1 +''
        (Some (PqError \<lparr>Code = ''42601'', PqPosition = ''42'', Message = ''syntax error''\<rparr>)))
       = 42
   \<and> Position (QueryError ''select 1 +''
        (Some (PqError \<lparr>Code = ''42601'', PqPosition = [], Message = ''syntax error''\<rparr>)))
       = 0
   \<and> Position (QueryError ''select 1 +'' (Some (OtherError ''bad connection''))) = 0"
proof -
  have "itoa 42 = ''42''" by code_simp
  then show ?thesis
    using QueryError_position [of "''select 1 +''" "Some (OtherError ''bad connection'')" 42
        "\<lparr>Code = ''42601'', PqPosition = [], Message = ''syntax error''\<rparr>"]
      QueryError_position [of "''select 1 +''"
        "Some (PqError \<lparr>Code = ''42601'', PqPosition = [], Message = ''syntax error''\<rparr>)" 42
        "\<lparr>Code = ''42601'', PqPosition = [], Message = ''syntax error''\<rparr>"]
    by (simp add: Atoi_def)
qed

section \<open>The schema of the migrations table\<close>

text \<open>
  Claim C8. For every table name, connection URL and answer to the current-schema
  query, the schema that a resolution returns when it completes without an error is
  not the empty string.
\<close>

theorem resolved_schema_nonempty:
  "fst (migrationsTableNameParts lib drv db w) = Inr (schema, tableNameParts)
   \<Longrightarrow> schema \<noteq> []"
  by (auto simp: migrationsTableNameParts_def Let_def split_def split: if_splits sum.splits)

theorem resolved_schema_nonempty_witness:
  "fst (migrationsTableNameParts exampleLib (exampleDriver ''schema_migrations'' [])
           (exampleDB []) emptyWorld) = Inr (''public'', [''schema_migrations''])
   \<and> ''public'' \<noteq> []"
proof -
  have h: "fst (migrationsTableNameParts exampleLib (exampleDriver ''schema_migrations'' [])
           (exampleDB []) emptyWorld) = Inr (''public'', [''schema_migrations''])"
    by code_simp
  show ?thesis using h resolved_schema_nonempty [OF h] by simp
qed

text \<open>
  Claim C1, as the specification states it, fails for a table name whose first
  dot-separated segment is empty: for \<open>.t\<close> and the search path \<open>x\<close> the resolved
  schema is \<open>x\<close>, not the (empty) first segment.
\<close>

theorem schema_first_segment_counterexample:
  "CHR ''.'' \<in> set ''.t''
   \<and> hd (Split ''.t'' ''.'') = []
   \<and> fst (migrationsTableNameParts exampleLib (exampleDriver ''.t'' ''search_path=x'')
           (exampleDB ''y'') emptyWorld) = Inr (''x'', [''t''])"
  by code_simp

text \<open>
  Claim C1, amended. The schema of the migrations table follows a fixed precedence:
  for every table name that contains a dot and whose first dot-separated segment is
  not empty, it is that segment, whatever the search path and the current schema
  are; otherwise it is the first comma-separated entry of the \<open>search_path\<close>
  parameter of the URL, trimmed of white space; if that is empty, it is the answer to
  the current-schema query (whose failure is the result); if that is empty too, it is
  \<open>public\<close>.
\<close>

theorem schema_precedence:
  "map_sum id fst (fst (migrationsTableNameParts lib drv db w)) =
     schemaPrecedence (migrationsTableName drv)
       (Get (URL_Query lib (databaseURL drv)) ''search_path'')
       (answerQueryValue db (calls w) ''select current_schema()'' [])"
  unfolding migrationsTableNameParts_def schemaPrecedence_def
  by (auto simp: Let_def split_def hd_Split_char length_Split_char Split_not_Nil
        dbutil_QueryValue_def split: sum.splits)

theorem schema_precedence_witness:
  "map_sum id fst (fst (migrationsTableNameParts exampleLib
       (exampleDriver ''s.t'' ''search_path=x'') (exampleDB ''y'') emptyWorld)) = Inr ''s''
   \<and> map_sum id fst (fst (migrationsTableNameParts exampleLib
       (exampleDriver ''t'' ''search_path= x ,z'') (exampleDB ''y'') emptyWorld)) = Inr ''x''
   \<and> map_sum id fst (fst (migrationsTableNameParts exampleLib
       (exampleDriver ''t'' []) (exampleDB ''y'') emptyWorld)) = Inr ''y''
   \<and> map_sum id fst (fst (migrationsTableNameParts exampleLib
       (exampleDriver ''t'' []) (exampleDB []) emptyWorld)) = Inr ''public''"
proof -
  have "schemaPrecedence (migrationsTableName (exampleDriver ''s.t'' ''search_path=x''))
          (Get (URL_Query exampleLib (databaseURL (exampleDriver ''s.t'' ''search_path=x'')))
             ''search_path'')
          (answerQueryValue (exampleDB ''y'') (calls emptyWorld) ''select current_schema()'' [])
        = Inr ''s''"
    by code_simp
  moreover
  have "schemaPrecedence (migrationsTableName (exampleDriver ''t'' ''search_path= x ,z''))
          (Get (URL_Query exampleLib (databaseURL (exampleDriver ''t'' ''search_path= x ,z'')))
             ''search_path'')
          (answerQueryValue (exampleDB ''y'') (calls emptyWorld) ''select current_schema()'' [])
        = Inr ''x''"
    by code_simp
  moreover
  have "schemaPrecedence (migrationsTableName (exampleDriver ''t'' []))
          (Get (URL_Query exampleLib (databaseURL (exampleDriver ''t'' []))) ''search_path'')
          (answerQueryValue (exampleDB ''y'') (calls emptyWorld) ''select current_schema()'' [])
        = Inr ''y''"
    by code_simp
  moreover
  have "schemaPrecedence (migrationsTableName (exampleDriver ''t'' []))
          (Get (URL_Query exampleLib (databaseURL (exampleDriver ''t'' []))) ''search_path'')
          (answerQueryValue (exampleDB []) (calls emptyWorld) ''select current_schema()'' [])
        = Inr ''public''"
    by code_simp
  ultimately show ?thesis
    by (simp only: schema_precedence simp_thms)
qed

section \<open>The arguments of the dump process\<close>

text \<open>
  Claim C6. For every connection URL (that \<open>dbutil.MustParseURL\<close> reads back from
  its own text), the arguments derived for the dump process are one pair
  \<open>--schema name\<close> for every entry of the comma-separated \<open>search_path\<close> parameter that
  is not blank once trimmed of white space, in order, followed by the URL whose query
  string has lost the \<open>search_path\<close> parameter, as the last argument. The witness is
  the search path \<open>" a , b,,c "\<close>.
\<close>

theorem connectionArgsForDump_schemas:
  assumes "MustParseURL lib (URL_String lib u) = u"
  shows "connectionArgsForDump lib u =
           concat (map (\<lambda>s. [''--schema'', s])
             (filter (\<lambda>s. s \<noteq> [])
                (map TrimSpace (Split (Get (URL_Query lib u) ''search_path'') '',''))))
           @ [URL_String lib
                (u\<lparr>RawQuery := Encode lib (Del (URL_Query lib u) ''search_path'')\<rparr>)]"
  using assms by (simp add: connectionArgsForDump_def Let_def schemaArgs_eq)

theorem connectionArgsForDump_schemas_witness:
  "MustParseURL exampleLib
       (URL_String exampleLib (exampleURL ''/app'' None ''search_path= a , b,,c ''))
     = exampleURL ''/app'' None ''search_path= a , b,,c ''
   \<and> connectionArgsForDump exampleLib (exampleURL ''/app'' None ''search_path= a , b,,c '')
     = [''--schema'', ''a'', ''--schema'', ''b'', ''--schema'', ''c'',
        ''postgres://localhost:5432/app'']"
proof -
  have h: "MustParseURL exampleLib
       (URL_String exampleLib (exampleURL ''/app'' None ''search_path= a , b,,c ''))
     = exampleURL ''/app'' None ''search_path= a , b,,c ''"
    by code_simp
  have "concat (map (\<lambda>s. [''--schema'', s])
             (filter (\<lambda>s. s \<noteq> [])
                (map TrimSpace (Split (Get (URL_Query exampleLib
                   (exampleURL ''/app'' None ''search_path= a , b,,c '')) ''search_path'') '',''))))
           @ [URL_String exampleLib ((exampleURL ''/app'' None ''search_path= a , b,,c '')
                \<lparr>RawQuery := Encode exampleLib (Del (URL_Query exampleLib
                   (exampleURL ''/app'' None ''search_path= a , b,,c '')) ''search_path'')\<rparr>)]
        = [''--schema'', ''a'', ''--schema'', ''b'', ''--schema'', ''c'',
           ''postgres://localhost:5432/app'']"
    by code_simp
  with h connectionArgsForDump_schemas [OF h] show ?thesis
    by (simp only: simp_thms)
qed

section \<open>Table names of three segments or more\<close>

text \<open>
  Claim C10, as stated, fails for a table name whose first segment is empty: for
  \<open>.b.c\<close> and the search path \<open>x\<close> the catalog is asked for the schema \<open>x\<close>, not for
  the (empty) first segment.
\<close>

theorem dotted_table_name_counterexample:
  "Split ''.b.c'' ''.'' = [[], ''b'', ''c'']
   \<and> calls (snd (MigrationsTableExists exampleLib (exampleDriver ''.b.c'' ''search_path=x'')
        quotingDB emptyWorld))
       = [CallQueryRow catalogQuery [Text ''x'', Text ''b.c'']]"
  by code_simp

text \<open>
  Claim C10, amended. For every table name of three dot-separated segments or more
  whose first segment is not empty, the existence check asks the catalog for one row
  whose \<open>table_schema\<close> is the first segment and whose \<open>table_name\<close> is the other
  segments joined again with a dot (\<open>b.c\<close> for \<open>a.b.c\<close>), whereas the quoted identity
  that create, list, insert and delete use is made of the other segments quoted one
  by one by the server and joined with a dot (\<open>"b"."c"\<close>).
\<close>

theorem dotted_table_name_identity:
  assumes "Split (migrationsTableName drv) ''.'' = a # b # c # rest"
    and "a \<noteq> []"
    and "answerQueryColumn db (calls w) quoteIdentQuery [TextArray (a # b # c # rest)]
           = Inr (map quote_ident (a # b # c # rest))"
  shows "calls (snd (MigrationsTableExists lib drv db w))
           = calls w @ [CallQueryRow catalogQuery
                          [Text a, Text (b @ ''.'' @ Join (c # rest) ''.'')]]
         \<and> fst (quotedMigrationsTableNameParts lib drv db w)
           = Inr (quote_ident a,
                  quote_ident b @ ''.'' @ Join (map quote_ident (c # rest)) ''.'')"
proof -
  have parts: "migrationsTableNameParts lib drv db w = (Inr (a, b # c # rest), w)"
    using assms(1,2) by (simp add: migrationsTableNameParts_def Let_def)
  have "calls (snd (MigrationsTableExists lib drv db w))
           = calls w @ [CallQueryRow catalogQuery
                          [Text a, Text (b @ ''.'' @ Join (c # rest) ''.'')]]"
    by (simp add: MigrationsTableExists_def parts Let_def db_QueryRow_def catalogQuery_def
          split: sum.splits)
  moreover have "fst (quotedMigrationsTableNameParts lib drv db w)
           = Inr (quote_ident a,
                  quote_ident b @ ''.'' @ Join (map quote_ident (c # rest)) ''.'')"
    using assms(3)
    by (simp add: quotedMigrationsTableNameParts_def parts Let_def dbutil_QueryColumn_def
          quoteIdentQuery_def)
  ultimately show ?thesis by simp
qed

theorem dotted_table_name_identity_witness:
  "Split (migrationsTableName (exampleDriver ''a.b.c'' [])) ''.'' = ''a'' # ''b'' # ''c'' # []
   \<and> ''a'' \<noteq> []
   \<and> calls (snd (MigrationsTableExists exampleLib (exampleDriver ''a.b.c'' [])
        quotingDB emptyWorld))
       = [CallQueryRow catalogQuery [Text ''a'', Text ''b.c'']]
   \<and> fst (quotedMigrationsTableNameParts exampleLib (exampleDriver ''a.b.c'' [])
        quotingDB emptyWorld)
       = Inr (exampleQuote ''a'', exampleQuote ''b'' @ ''.'' @ exampleQuote ''c'')"
proof -
  have h1: "Split (migrationsTableName (exampleDriver ''a.b.c'' [])) ''.''
              = ''a'' # ''b'' # ''c'' # []"
    by code_simp
  have h2: "''a'' \<noteq> []" by simp
  have h3: "answerQueryColumn quotingDB (calls emptyWorld) quoteIdentQuery
              [TextArray (''a'' # ''b'' # ''c'' # [])]
            = Inr (map exampleQuote (''a'' # ''b'' # ''c'' # []))"
    by (simp add: quotingDB_def)
  show ?thesis
    using h1 dotted_table_name_identity [OF h1 h2 h3, of exampleLib]
    by (simp add: emptyWorld_def)
qed

section \<open>Creating the migrations table\<close>

text \<open>
  Claim C2, as stated, fails when the creation of the schema fails: the first
  attempt fails with the signal "schema does not exist", \<open>CREATE SCHEMA\<close> is issued
  and refused, and its error is returned without a second attempt at the table.
\<close>

theorem CreateMigrationsTable_retry_counterexample:
  "answerExec deniedDB [CallQueryColumn quoteIdentQuery [TextArray [''s'', ''t'']]]
       (createTableStmt ''s'' ''t'') []
     = Some (PqError \<lparr>Code = ''3F000'', PqPosition = [], Message = ''schema does not exist''\<rparr>)
   \<and> CreateMigrationsTable exampleLib (exampleDriver ''s.t'' []) deniedDB emptyWorld
     = (Some (OtherError ''permission denied for database''),
        \<lparr>calls = [CallQueryColumn quoteIdentQuery [TextArray [''s'', ''t'']],
                  CallExec (createTableStmt ''s'' ''t'') [],
                  CallExec (createSchemaStmt ''s'') []],
         logged = [''Creating schema: s\<newline>'']\<rparr>)"
  by code_simp

text \<open>
  Claim C2, amended. Once the quoted name of the table is resolved,
  \<open>CreateMigrationsTable\<close> attempts \<open>CREATE TABLE IF NOT EXISTS\<close> once. If and only if
  that attempt fails with the signal "schema does not exist", it issues
  \<open>CREATE SCHEMA IF NOT EXISTS\<close>; when the creation of the schema fails, that error is
  returned and the table is not attempted again; otherwise the creation of the table
  is retried exactly once and the result of the second attempt is returned as it is.
  A first attempt that fails with any other error returns that error unmodified,
  with no creation of a schema and no retry.
\<close>

theorem CreateMigrationsTable_attempts:
  assumes "quotedMigrationsTableNameParts lib drv db w = (Inr (schema, table), w1)"
  shows "CreateMigrationsTable lib drv db w =
     (case answerExec db (calls w1) (createTableStmt schema table) [] of
        None \<Rightarrow> (None, w1\<lparr>calls := calls w1 @ [CallExec (createTableStmt schema table) []]\<rparr>)
      | Some err \<Rightarrow>
          if \<not> schemaMissing err
          then (Some err, w1\<lparr>calls := calls w1 @ [CallExec (createTableStmt schema table) []]\<rparr>)
          else
            (case answerExec db (calls w1 @ [CallExec (createTableStmt schema table) []])
                    (createSchemaStmt schema) [] of
               Some err2 \<Rightarrow>
                 (Some err2,
                  w1\<lparr>calls := calls w1 @ [CallExec (createTableStmt schema table) [],
                                           CallExec (createSchemaStmt schema) []],
                     logged := logged w1 @ [''Creating schema: '' @ schema @ ''\<newline>'']\<rparr>)
             | None \<Rightarrow>
                 (answerExec db
                    (calls w1 @ [CallExec (createTableStmt schema table) [],
                                 CallExec (createSchemaStmt schema) []])
                    (createTableStmt schema table) [],
                  w1\<lparr>calls := calls w1 @ [CallExec (createTableStmt schema table) [],
                                           CallExec (createSchemaStmt schema) [],
                                           CallExec (createTableStmt schema table) []],
                     logged := logged w1 @ [''Creating schema: '' @ schema @ ''\<newline>'']\<rparr>)))"
  using assms
  by (simp add: CreateMigrationsTable_def Let_def db_Exec_def Fprintf_def schemaMissing_def
        createTableStmt_def createSchemaStmt_def split: option.splits)

theorem CreateMigrationsTable_attempts_witness:
  "quotedMigrationsTableNameParts exampleLib (exampleDriver ''s.t'' []) freshDB emptyWorld
     = (Inr (''s'', ''t''),
        \<lparr>calls = [CallQueryColumn quoteIdentQuery [TextArray [''s'', ''t'']]], logged = []\<rparr>)
   \<and> CreateMigrationsTable exampleLib (exampleDriver ''s.t'' []) freshDB emptyWorld
     = (None,
        \<lparr>calls = [CallQueryColumn quoteIdentQuery [TextArray [''s'', ''t'']],
                  CallExec (createTableStmt ''s'' ''t'') [],
                  CallExec (createSchemaStmt ''s'') [],
                  CallExec (createTableStmt ''s'' ''t'') []],
         logged = [''Creating schema: s\<newline>'']\<rparr>)"
proof -
  have h: "quotedMigrationsTableNameParts exampleLib (exampleDriver ''s.t'' []) freshDB
             emptyWorld
     = (Inr (''s'', ''t''),
        \<lparr>calls = [CallQueryColumn quoteIdentQuery [TextArray [''s'', ''t'']]], logged = []\<rparr>)"
    by code_simp
  show ?thesis
    using h CreateMigrationsTable_attempts [OF h]
    by (simp add: freshDB_def schemaMissing_def createTableStmt_def createSchemaStmt_def)
qed

section \<open>Listing the applied migrations\<close>



section \<open>The migrations section of the dump\<close>



end
